theory Spec2Isabelle
  imports Main "HOL-Library.Word" "HOL-Library.List_Lexorder" "HOL-Library.Char_ord"
begin

chapter \<open>The programs\<close>

section \<open>Go values\<close>

text \<open>
  A value of Go's empty interface (\<open>any\<close>, \<open>interface{}\<close>) is a value together with
  its dynamic type. The constructors are the dynamic types the repository's code tells
  apart: \<open>string\<close> (the target of the type assertion in \<open>RabbitMQCarrier.Get\<close> and of
  the second case of the type switch in \<open>ConvertToMap\<close>), \<open>map[string]any\<close> (the first
  case of that switch), and some of the other types an AMQP header table or a decoded
  JSON document holds. A \<open>map[string]any\<close> is a list of its entries, with distinct keys.
  \<open>AOther s\<close> is a value of any further dynamic type (a float, a struct, a byte
  slice), known by the string \<open>s\<close> that formatting it with \<open>%v\<close> gives.
\<close>

datatype any =
    ANil
  | ABool bool
  | AInt int
  | AString string
  | ASlice "any list"
  | AMapAny "(string \<times> any) list"
  | AOther string

text \<open>
  A run-time panic of the Go program. Assigning to an entry of a nil map is the only one
  the modelled functions can raise.
\<close>

datatype panic = AssignmentToEntryInNilMap

section \<open>The message-header carrier\<close>

text \<open>
  \<open>amqp091.Table\<close> is \<open>map[string]interface{}\<close>. A Go map variable is either nil or
  refers to an allocated map: \<open>None\<close> is the nil map, \<open>Some m\<close> an allocated one
  with the entries of \<open>m\<close>.

  \<^verbatim>\<open>
  type RabbitMQCarrier struct {
          headers amqp091.Table
  }
  \<close>
\<close>

type_synonym Table = "(string \<rightharpoonup> any) option"

record RabbitMQCarrier =
  headers :: Table

text \<open>
  The comma-ok read \<open>val, ok := c.headers[key]\<close>. Reading a nil map is allowed in Go and
  finds nothing.
\<close>

definition table_lookup :: "Table \<Rightarrow> string \<Rightarrow> any option" where
  "table_lookup t key = (case t of None \<Rightarrow> None | Some m \<Rightarrow> m key)"

text \<open>
  The comma-ok type assertion \<open>strVal, ok := val.(string)\<close>: it succeeds exactly when
  the dynamic type of the value is \<open>string\<close>, and converts nothing.
\<close>

fun assert_string :: "any \<Rightarrow> string option" where
  "assert_string (AString s) = Some s"
| "assert_string _ = None"

text \<open>
  \<^verbatim>\<open>
  func (c *RabbitMQCarrier) Get(key string) string {
          if val, ok := c.headers[key]; ok {
                  if strVal, ok := val.(string); ok {
                          return strVal
                  }
          }
          return ""
  }
  \<close>
  The result is a sum so that \<open>Get\<close> and \<open>Set\<close> share one shape: \<open>Inl\<close> is a panic.
\<close>

definition Get :: "RabbitMQCarrier \<Rightarrow> string \<Rightarrow> panic + string" where
  "Get c key =
     (case table_lookup (headers c) key of
        Some val \<Rightarrow>
          (case assert_string val of
             Some strVal \<Rightarrow> Inr strVal
           | None \<Rightarrow> Inr '''')
      | None \<Rightarrow> Inr '''')"

text \<open>
  \<^verbatim>\<open>
  func (c *RabbitMQCarrier) Set(key string, value string) {
          c.headers[key] = value
  }
  \<close>
  The assignment panics when \<open>c.headers\<close> is nil; the method has no other statement.
  The four copies of the method (consumer-1, its earlier version, consumer-2 and the
  handler of app-2) are the same text.
\<close>

definition Set :: "RabbitMQCarrier \<Rightarrow> string \<Rightarrow> string \<Rightarrow> panic + RabbitMQCarrier" where
  "Set c key value =
     (case headers c of
        None \<Rightarrow> Inl AssignmentToEntryInNilMap
      | Some m \<Rightarrow> Inr (c\<lparr>headers := Some (m(key \<mapsto> AString value))\<rparr>))"

text \<open>\<open>make(amqp091.Table)\<close>: an allocated table with no entry.\<close>

definition make_Table :: Table where
  "make_Table = Some Map.empty"

section \<open>Trace identifiers and span contexts\<close>

text \<open>
  \<open>trace.TraceID\<close> is \<open>[16]byte\<close> and \<open>trace.SpanID\<close> is \<open>[8]byte\<close>; they are read
  here as the 128-bit and 64-bit numbers whose big-endian bytes they are.
  \<open>trace.TraceFlags\<close> is one byte.
\<close>

type_synonym TraceID = "128 word"
type_synonym SpanID = "64 word"
type_synonym TraceFlags = "8 word"

record SpanContext =
  traceID :: TraceID
  spanID :: SpanID
  traceFlags :: TraceFlags
  remote :: bool

text \<open>The zero value \<open>trace.SpanContext{}\<close>.\<close>

definition emptySpanContext :: SpanContext where
  "emptySpanContext = \<lparr>traceID = 0, spanID = 0, traceFlags = 0, remote = False\<rparr>"

text \<open>
  \<open>SpanContext.IsValid\<close>: the trace id and the span id are both present, that is, not
  all zero.
\<close>

definition IsValid :: "SpanContext \<Rightarrow> bool" where
  "IsValid sc = (traceID sc \<noteq> 0 \<and> spanID sc \<noteq> 0)"

text \<open>
  \<open>TraceID.String\<close> and \<open>SpanID.String\<close> are \<open>hex.EncodeToString\<close> of the bytes: two
  digits of the table \<open>0123456789abcdef\<close> for each byte, the first byte first.
  \<open>hex_digits k n\<close> are the \<open>k\<close> lowest hexadecimal digits of \<open>n\<close>, the highest first.
\<close>

definition hexdigit :: "nat \<Rightarrow> char" where
  "hexdigit n = ''0123456789abcdef'' ! (n mod 16)"

fun hex_digits :: "nat \<Rightarrow> nat \<Rightarrow> string" where
  "hex_digits 0 n = []"
| "hex_digits (Suc k) n = hex_digits k (n div 16) @ [hexdigit (n mod 16)]"

definition TraceID_String :: "TraceID \<Rightarrow> string" where
  "TraceID_String t = hex_digits 32 (unat t)"

definition SpanID_String :: "SpanID \<Rightarrow> string" where
  "SpanID_String s = hex_digits 16 (unat s)"

section \<open>Spans\<close>

text \<open>
  The three implementations of \<open>trace.Span\<close> the programs can meet: the span of the
  no-op tracer (\<open>noopSpan\<close>, whose span context is the zero value), the wrapper of a
  span context that came from elsewhere (\<open>nonRecordingSpan\<close>, what
  \<open>ContextWithRemoteSpanContext\<close> stores), and the recording span of the SDK tracer
  provider that every \<open>initTracer\<close> installs.
\<close>

datatype SpanImpl = NoopSpan | NonRecordingSpan | RecordingSpan

text \<open>\<open>codes.Code\<close>: \<open>Unset\<close> is 0, \<open>Error\<close> is 1, \<open>Ok\<close> is 2.\<close>

datatype Code = Unset | Error | Ok

fun code_rank :: "Code \<Rightarrow> nat" where
  "code_rank Unset = 0"
| "code_rank Error = 1"
| "code_rank Ok = 2"

record Span =
  impl :: SpanImpl
  spanContext :: SpanContext
  operationName :: string
  statusCode :: Code
  statusDescription :: string
  recordedErrors :: "string list"
  ended :: bool

definition noopSpan :: Span where
  "noopSpan = \<lparr>impl = NoopSpan, spanContext = emptySpanContext, operationName = [],
     statusCode = Unset, statusDescription = [], recordedErrors = [], ended = False\<rparr>"

definition nonRecordingSpan :: "SpanContext \<Rightarrow> Span" where
  "nonRecordingSpan sc = noopSpan\<lparr>impl := NonRecordingSpan, spanContext := sc\<rparr>"

text \<open>\<open>Span.IsRecording\<close>: a recording span records until it has ended.\<close>

definition IsRecording :: "Span \<Rightarrow> bool" where
  "IsRecording s = (impl s = RecordingSpan \<and> \<not> ended s)"

text \<open>
  \<open>Span.RecordError(err)\<close> adds the error to the span as an exception event, when the
  span is recording. It leaves the status of the span alone: setting the status is a
  separate call of \<open>SetStatus\<close>. Errors are their messages (\<open>err.Error()\<close>).
\<close>

definition RecordError :: "Span \<Rightarrow> string \<Rightarrow> Span" where
  "RecordError s err =
     (if IsRecording s then s\<lparr>recordedErrors := recordedErrors s @ [err]\<rparr> else s)"

text \<open>
  \<open>Span.SetStatus(code, description)\<close> on a recording span: a status is never replaced
  by one of a lower code, and only an \<open>Error\<close> status keeps its description.
\<close>

definition SetStatus :: "Span \<Rightarrow> Code \<Rightarrow> string \<Rightarrow> Span" where
  "SetStatus s c description =
     (if \<not> IsRecording s then s
      else if code_rank c < code_rank (statusCode s) then s
      else s\<lparr>statusCode := c,
             statusDescription := (if c = Error then description else [])\<rparr>)"

text \<open>\<open>Span.End()\<close>: a recording span ends; on the other spans the call does nothing.\<close>

definition End :: "Span \<Rightarrow> Span" where
  "End s = (if IsRecording s then s\<lparr>ended := True\<rparr> else s)"

section \<open>Contexts and tracers\<close>

text \<open>
  Of a \<open>context.Context\<close> the programs use the current span
  (\<open>trace.ContextWithSpan\<close>, \<open>trace.SpanFromContext\<close>) and the baggage, which they
  only hand on.
\<close>

record Context =
  ctxSpan :: "Span option"
  ctxBaggage :: "(string \<times> string) list"

definition Background :: Context where
  "Background = \<lparr>ctxSpan = None, ctxBaggage = []\<rparr>"

definition ContextWithSpan :: "Context \<Rightarrow> Span \<Rightarrow> Context" where
  "ContextWithSpan ctx s = ctx\<lparr>ctxSpan := Some s\<rparr>"

text \<open>\<open>trace.SpanFromContext\<close>: the current span, or the no-op span when there is none.\<close>

definition SpanFromContext :: "Context \<Rightarrow> Span" where
  "SpanFromContext ctx = (case ctxSpan ctx of None \<Rightarrow> noopSpan | Some s \<Rightarrow> s)"

text \<open>
  A tracer is its \<open>Start\<close> method, from the context and the span name to the new
  context and the new span; a tracer provider (\<open>otel.Tracer(name)\<close> asks the global
  one) gives the tracer of a name. Which provider is installed, and the ids its
  generator draws, are inputs of the functions below.
\<close>

type_synonym Tracer = "Context \<Rightarrow> string \<Rightarrow> Context \<times> Span"
type_synonym TracerProvider = "string \<Rightarrow> Tracer"

text \<open>
  Tracing disabled. The tracer of the no-op provider (package \<open>trace/noop\<close>) records
  nothing: the span it returns is the span of the context when that one only wraps a
  span context, and the no-op span otherwise.
\<close>

definition noopTracer_Start :: Tracer where
  "noopTracer_Start ctx name =
     (let span = (if impl (SpanFromContext ctx) = NonRecordingSpan
                  then SpanFromContext ctx else noopSpan)
      in (ContextWithSpan ctx span, span))"

definition noopTracerProvider :: TracerProvider where
  "noopTracerProvider name = noopTracer_Start"

text \<open>
  While no provider has been installed with \<open>otel.SetTracerProvider\<close>, the tracer of
  the global provider starts no real span either: the span it returns wraps the span
  context that the context already carries, the zero span context when it carries none.
\<close>

definition defaultTracer_Start :: Tracer where
  "defaultTracer_Start ctx name =
     (let span = nonRecordingSpan (spanContext (SpanFromContext ctx))
      in (ContextWithSpan ctx span, span))"

definition defaultTracerProvider :: TracerProvider where
  "defaultTracerProvider name = defaultTracer_Start"

text \<open>
  The tracer of an SDK provider (\<open>trace.NewTracerProvider\<close>, what every \<open>initTracer\<close>
  installs), at a call where the sampler decides to record, as the default sampler does
  for a span without a parent and for the child of a sampled parent. The id generator
  draws the trace id \<open>tid\<close> and the span id \<open>sid\<close>; the span continues the trace of a
  valid parent.
\<close>

definition sdkTracer_Start :: "TraceID \<Rightarrow> SpanID \<Rightarrow> Tracer" where
  "sdkTracer_Start tid sid ctx name =
     (let parent = spanContext (SpanFromContext ctx);
          sc = \<lparr>traceID = (if IsValid parent then traceID parent else tid),
                spanID = sid, traceFlags = 1, remote = False\<rparr>;
          span = \<lparr>impl = RecordingSpan, spanContext = sc, operationName = name,
                  statusCode = Unset, statusDescription = [], recordedErrors = [],
                  ended = False\<rparr>
      in (ContextWithSpan ctx span, span))"

definition sdkTracerProvider :: "TraceID \<Rightarrow> SpanID \<Rightarrow> TracerProvider" where
  "sdkTracerProvider tid sid name = sdkTracer_Start tid sid"

section \<open>The span tracer of the shared package\<close>

text \<open>
  \<^verbatim>\<open>
  func Trace(ctx context.Context, layer, funcName, spanName string) (context.Context, trace.Span, string) {
          tracer := otel.Tracer(fmt.Sprintf("%s/%s", layer, funcName))
          ctx, span := tracer.Start(ctx, spanName)
          return ctx, span, span.SpanContext().SpanID().String()
  }
  \<close>
\<close>

definition Trace ::
  "TracerProvider \<Rightarrow> Context \<Rightarrow> string \<Rightarrow> string \<Rightarrow> string \<Rightarrow> Context \<times> Span \<times> string" where
  "Trace provider ctx layer funcName spanName =
     (let tracer = provider (layer @ ''/'' @ funcName);
          (ctx', span) = tracer ctx spanName
      in (ctx', span, SpanID_String (spanID (spanContext span))))"

text \<open>
  The consumers derive the span id string with a guard (the same lines in consumer-1,
  its earlier version and consumer-2):
  \<^verbatim>\<open>
  currentSpanId := ""
  if span != nil && span.SpanContext().IsValid() {
          currentSpanId = span.SpanContext().SpanID().String()
  }
  \<close>
  A tracer's \<open>Start\<close> returns a span, never nil.
\<close>

definition currentSpanId :: "Span \<Rightarrow> string" where
  "currentSpanId span =
     (if IsValid (spanContext span) then SpanID_String (spanID (spanContext span)) else [])"

section \<open>The log correlator\<close>

text \<open>
  Of a \<open>zap.Logger\<close> the model keeps the fields every entry it writes carries.
  \<open>Logger.With(fields...)\<close> is a child logger with the fields added after the ones it
  has; with no field it is the logger itself. \<open>zap.String(key, val)\<close> is the pair.
\<close>

datatype Logger = Logger (logFields: "(string \<times> string) list")

definition zap_String :: "string \<Rightarrow> string \<Rightarrow> string \<times> string" where
  "zap_String key val = (key, val)"

definition With :: "Logger \<Rightarrow> (string \<times> string) list \<Rightarrow> Logger" where
  "With l flds = (if flds = [] then l else Logger (logFields l @ flds))"

text \<open>
  \<^verbatim>\<open>
  func WithTrace(ctx context.Context, spanId string) *zap.Logger {
          span := trace.SpanFromContext(ctx)
          if !span.SpanContext().IsValid() {
                  return logger
          }

          fields := make([]zap.Field, 0, 2) // Pre-allocate for 2 fields
          fields = append(fields, zap.String("trace_id", span.SpanContext().TraceID().String()))

          if spanId != "" {
                  fields = append(fields, zap.String("span_id", spanId))
          }

          return logger.With(fields...)
  }
  \<close>
  \<open>logger\<close> is the package's logger, the one \<open>New\<close> built: the first argument here.
  The slice \<open>fields\<close> is \<open>flds\<close>.
\<close>

definition WithTrace :: "Logger \<Rightarrow> Context \<Rightarrow> string \<Rightarrow> Logger" where
  "WithTrace logger ctx spanId =
     (let span = SpanFromContext ctx in
      if \<not> IsValid (spanContext span) then logger
      else
        (let flds = [];
             flds = flds @ [zap_String ''trace_id'' (TraceID_String (traceID (spanContext span)))];
             flds = (if spanId \<noteq> [] then flds @ [zap_String ''span_id'' spanId] else flds)
         in With logger flds))"

section \<open>The propagator\<close>

text \<open>
  \<open>otel.GetTextMapPropagator()\<close> is the propagator the process installed, code of the
  OpenTelemetry library. It is an input of the functions that use it, in the shape of
  its interface: \<open>Inject\<close> writes fields that depend on the context alone into the
  carrier through \<open>Set\<close>, and \<open>Extract\<close> reads the carrier through \<open>Get\<close>.
\<close>

record Propagator =
  injectedFields :: "Context \<Rightarrow> (string \<times> string) list"
  extractFrom :: "Context \<Rightarrow> (string \<Rightarrow> string) \<Rightarrow> Context"

text \<open>\<open>propagator.Inject(ctx, carrier)\<close> on a message-header carrier.\<close>

fun setAll :: "RabbitMQCarrier \<Rightarrow> (string \<times> string) list \<Rightarrow> panic + RabbitMQCarrier" where
  "setAll c [] = Inr c"
| "setAll c ((key, val) # kvs) =
     (case Set c key val of Inl p \<Rightarrow> Inl p | Inr c' \<Rightarrow> setAll c' kvs)"

definition Inject :: "Propagator \<Rightarrow> Context \<Rightarrow> RabbitMQCarrier \<Rightarrow> panic + RabbitMQCarrier" where
  "Inject propagator ctx carrier = setAll carrier (injectedFields propagator ctx)"

text \<open>\<open>propagator.Extract(ctx, carrier)\<close> on a message-header carrier.\<close>

definition getString :: "RabbitMQCarrier \<Rightarrow> string \<Rightarrow> string" where
  "getString c key = (case Get c key of Inr s \<Rightarrow> s | Inl p \<Rightarrow> [])"

definition Extract :: "Propagator \<Rightarrow> Context \<Rightarrow> RabbitMQCarrier \<Rightarrow> Context" where
  "Extract propagator ctx carrier = extractFrom propagator ctx (getString carrier)"

section \<open>The consumer's unit of work\<close>

text \<open>
  What a unit of work does to the world outside, in the order it does it: the calls
  that start and end a span (by the span's name), the log entries (level, message and
  the fields of the logger that wrote them), the message published, and the
  acknowledgement \<open>d.Ack(multiple)\<close> or \<open>d.Nack(multiple, requeue)\<close> of the delivery.
\<close>

datatype Level = InfoLevel | ErrorLevel

datatype Event =
    SpanStarted string
  | SpanEnded string
  | Logged Level string "(string \<times> string) list"
  | Published string Table
  | Acked bool
  | Nacked bool bool

record Delivery =
  Headers :: Table
  Body :: string
  ContentType :: string

text \<open>
  \<^verbatim>\<open>
  func processMessage(ctx context.Context, log *zap.Logger, body []byte) error {
          _, span := otel.Tracer("consumer-1").Start(ctx, "ProcessMessage")
          defer span.End()

          log.Info("Parsing message")
          time.Sleep(time.Duration(rand.Intn(100)) * time.Millisecond)

          log.Info("Validating message")
          if len(body) == 0 {
                  return fmt.Errorf("empty message body")
          }
          time.Sleep(time.Duration(rand.Intn(150)) * time.Millisecond)

          if rand.Intn(3) == 0 {
                  err := fmt.Errorf("random processing error in consumer-1")
                  span.RecordError(err)
                  log.Error("Random processing error", zap.Error(err))
                  return err
          }

          log.Info("Processing message", ...)
          time.Sleep(time.Duration(rand.Intn(750)) * time.Millisecond)

          log.Info("Message processed successfully")
          return nil
  }
  \<close>
  The number \<open>rand.Intn(3)\<close> draws is the argument \<open>r\<close>; the sleeps only take time.
  The result is the error (\<open>None\<close> for nil), the span as the deferred \<open>End\<close> leaves it,
  and the events.
\<close>

definition processMessage ::
  "TracerProvider \<Rightarrow> Context \<Rightarrow> Logger \<Rightarrow> string \<Rightarrow> nat \<Rightarrow> string option \<times> Span \<times> Event list" where
  "processMessage provider ctx log body r =
     (let (ctx', span) = provider ''consumer-1'' ctx ''ProcessMessage'';
          evs = [SpanStarted ''ProcessMessage'',
                 Logged InfoLevel ''Parsing message'' (logFields log),
                 Logged InfoLevel ''Validating message'' (logFields log)]
      in if length body = 0 then
           (Some ''empty message body'', End span, evs @ [SpanEnded ''ProcessMessage''])
         else if r = 0 then
           (let err = ''random processing error in consumer-1'';
                span = RecordError span err;
                evs = evs @ [Logged ErrorLevel ''Random processing error'' (logFields log)]
            in (Some err, End span, evs @ [SpanEnded ''ProcessMessage'']))
         else
           (None, End span,
            evs @ [Logged InfoLevel ''Processing message'' (logFields log),
                   Logged InfoLevel ''Message processed successfully'' (logFields log),
                   SpanEnded ''ProcessMessage'']))"

text \<open>\<open>len(d.Headers) > 0\<close>: the table is allocated and has an entry.\<close>

definition hasHeaders :: "Table \<Rightarrow> bool" where
  "hasHeaders t = (case t of None \<Rightarrow> False | Some m \<Rightarrow> m \<noteq> Map.empty)"

text \<open>
  The body of the consumer's message loop (consumer-1, the version with
  \<open>processMessage\<close>), for one delivery \<open>d\<close>:
  \<^verbatim>\<open>
  ctx := context.Background()
  if len(d.Headers) > 0 {
          carrier := &RabbitMQCarrier{headers: d.Headers}
          ctx = otel.GetTextMapPropagator().Extract(ctx, carrier)
  }

  tracer := otel.Tracer("consumer-1")
  ctx, span := tracer.Start(ctx, "Process Message")
  currentSpanId := ""
  if span != nil && span.SpanContext().IsValid() {
          currentSpanId = span.SpanContext().SpanID().String()
  }

  traceLogger := logger.WithTrace(ctx, currentSpanId)
  traceLogger.Info("[Consumer 1] Received a message", zap.String("message", string(d.Body)))

  if err := processMessage(ctx, traceLogger, d.Body); err != nil {
          traceLogger.Error("Failed to process message", zap.Error(err))
          d.Nack(false, true)
          // End the span after processing is complete
          if span != nil {
                  span.End()
          }
          continue
  }

  headers := make(amqp091.Table)
  carrier := &RabbitMQCarrier{headers: headers}
  otel.GetTextMapPropagator().Inject(ctx, carrier)

  err := ch.Publish("", "task_queue_2", false, false,
          amqp091.Publishing{ContentType: d.ContentType, Body: d.Body, Headers: headers})
  if err != nil {
          traceLogger.Error("[Consumer 1] Failed to forward message", zap.Error(err))
  } else {
          traceLogger.Info("[Consumer 1] Forwarded message to consumer-2")
  }

  // End the span after processing is complete
  if span != nil {
          span.End()
  }

  // Acknowledge the original message
  d.Ack(false)
  \<close>
  Whether \<open>ch.Publish\<close> returns an error is the argument \<open>publishFails\<close>. The result
  is the outer span and the span of \<open>processMessage\<close> as the unit of work leaves them,
  and the events.
\<close>

definition handleDelivery ::
  "TracerProvider \<Rightarrow> Propagator \<Rightarrow> Logger \<Rightarrow> bool \<Rightarrow> nat \<Rightarrow> Delivery
     \<Rightarrow> panic + Span \<times> Span \<times> Event list" where
  "handleDelivery provider propagator logger publishFails r d =
     (let ctx = Background;
          ctx = (if hasHeaders (Headers d)
                 then Extract propagator ctx \<lparr>headers = Headers d\<rparr> else ctx);
          tracer = provider ''consumer-1'';
          (ctx, span) = tracer ctx ''Process Message'';
          traceLogger = WithTrace logger ctx (currentSpanId span);
          evs = [SpanStarted ''Process Message'',
                 Logged InfoLevel ''[Consumer 1] Received a message'' (logFields traceLogger)];
          (err, inner, evs') = processMessage provider ctx traceLogger (Body d) r;
          evs = evs @ evs'
      in case err of
           Some e \<Rightarrow>
             Inr (End span, inner,
                  evs @ [Logged ErrorLevel ''Failed to process message'' (logFields traceLogger),
                         Nacked False True,
                         SpanEnded ''Process Message''])
         | None \<Rightarrow>
             (case Inject propagator ctx \<lparr>headers = make_Table\<rparr> of
                Inl p \<Rightarrow> Inl p
              | Inr carrier \<Rightarrow>
                  Inr (End span, inner,
                       evs @ [Published ''task_queue_2'' (headers carrier),
                              (if publishFails
                               then Logged ErrorLevel ''[Consumer 1] Failed to forward message''
                                      (logFields traceLogger)
                               else Logged InfoLevel ''[Consumer 1] Forwarded message to consumer-2''
                                      (logFields traceLogger)),
                              SpanEnded ''Process Message'',
                              Acked False])))"

text \<open>
  The loop body of the consumer that only forwards (consumer-1 without
  \<open>processMessage\<close>): the same text, with \<open>time.Sleep(1 * time.Second)\<close> in the place
  of the call of \<open>processMessage\<close> and of its error branch. There is one span and no
  negative acknowledgement.
\<close>

definition forwardDelivery ::
  "TracerProvider \<Rightarrow> Propagator \<Rightarrow> Logger \<Rightarrow> bool \<Rightarrow> Delivery \<Rightarrow> panic + Span \<times> Event list" where
  "forwardDelivery provider propagator logger publishFails d =
     (let ctx = Background;
          ctx = (if hasHeaders (Headers d)
                 then Extract propagator ctx \<lparr>headers = Headers d\<rparr> else ctx);
          tracer = provider ''consumer-1'';
          (ctx, span) = tracer ctx ''Process Message'';
          traceLogger = WithTrace logger ctx (currentSpanId span);
          evs = [SpanStarted ''Process Message'',
                 Logged InfoLevel ''[Consumer 1] Received a message'' (logFields traceLogger)]
      in case Inject propagator ctx \<lparr>headers = make_Table\<rparr> of
           Inl p \<Rightarrow> Inl p
         | Inr carrier \<Rightarrow>
             Inr (End span,
                  evs @ [Published ''task_queue_2'' (headers carrier),
                         (if publishFails
                          then Logged ErrorLevel ''[Consumer 1] Failed to forward message''
                                 (logFields traceLogger)
                          else Logged InfoLevel ''[Consumer 1] Forwarded message to consumer-2''
                                 (logFields traceLogger)),
                         SpanEnded ''Process Message'',
                         Acked False]))"

definition eventsOf :: "panic + Span \<times> Span \<times> Event list \<Rightarrow> Event list" where
  "eventsOf res = (case res of Inl p \<Rightarrow> [] | Inr (outer, inner, evs) \<Rightarrow> evs)"

text \<open>
  The order the specification asks for: every acknowledgement, positive or negative,
  comes after the call that ends the span named \<open>name\<close>. \<open>seen\<close> says whether that
  call has been seen.
\<close>

fun completionFollowsEnd :: "string \<Rightarrow> bool \<Rightarrow> Event list \<Rightarrow> bool" where
  "completionFollowsEnd name seen [] = True"
| "completionFollowsEnd name seen (SpanEnded n # evs) =
     completionFollowsEnd name (seen \<or> n = name) evs"
| "completionFollowsEnd name seen (Acked multiple # evs) =
     (seen \<and> completionFollowsEnd name seen evs)"
| "completionFollowsEnd name seen (Nacked multiple requeue # evs) =
     (seen \<and> completionFollowsEnd name seen evs)"
| "completionFollowsEnd name seen (ev # evs) = completionFollowsEnd name seen evs"

section \<open>The HTTP handler of \<open>/random-error\<close>\<close>

text \<open>
  \<^verbatim>\<open>
  func simulateRandomError(ctx context.Context) error {
          _, span := otel.Tracer("app-1").Start(ctx, "simulateRandomError")
          defer span.End()

          logger.WithTrace(ctx, span.SpanContext().SpanID().String()).Info("simulateRandomError working")
          if rand.Intn(2) == 0 {
                  span.RecordError(errors.New("simulated random error"))
                  span.SetStatus(codes.Error, "simulated random error")
                  return errors.New("simulated random error")
          }
          return nil
  }
  \<close>
  The number \<open>rand.Intn(2)\<close> draws is the argument \<open>r\<close>; the log entry is left out.
\<close>

definition simulateRandomError ::
  "TracerProvider \<Rightarrow> Context \<Rightarrow> nat \<Rightarrow> string option \<times> Span" where
  "simulateRandomError provider ctx r =
     (let (ctx', span) = provider ''app-1'' ctx ''simulateRandomError''
      in if r = 0 then
           (let span = RecordError span ''simulated random error'';
                span = SetStatus span Error ''simulated random error''
            in (Some ''simulated random error'', End span))
         else (None, End span))"

text \<open>
  The response of a fiber handler: the status code and the JSON object of the body.
  \<^verbatim>\<open>
  app.Get("/random-error", func(c *fiber.Ctx) error {
          ctx := c.UserContext()
          ctx, span := tracer.Start(ctx, "GET /random-error")
          defer span.End()
          currentSpanId := span.SpanContext().SpanID().String()

          logger.WithTrace(ctx, currentSpanId).Info("random-error working")

          if err := simulateRandomError(ctx); err != nil {
                  span.RecordError(err)
                  span.SetStatus(codes.Error, err.Error())
                  logger.WithTrace(ctx, currentSpanId).Error("error in /random-error", zap.Error(err))
                  return c.Status(fiber.StatusInternalServerError).JSON(fiber.Map{"error": err.Error()})
          }

          logger.WithTrace(ctx, currentSpanId).Info("random-error success")
          return c.JSON(fiber.Map{"message": "success"})
  })
  \<close>
  The result is the response and the handler's span as the deferred \<open>End\<close> leaves it;
  the log entries are left out.
\<close>

record Response =
  status :: nat
  jsonBody :: "(string \<times> string) list"

definition randomErrorHandler ::
  "TracerProvider \<Rightarrow> Context \<Rightarrow> nat \<Rightarrow> Response \<times> Span" where
  "randomErrorHandler provider userContext r =
     (let tracer = provider ''app-1'';
          (ctx, span) = tracer userContext ''GET /random-error''
      in case fst (simulateRandomError provider ctx r) of
           Some err \<Rightarrow>
             (let span = RecordError span err;
                  span = SetStatus span Error err
              in (\<lparr>status = 500, jsonBody = [(''error'', err)]\<rparr>, End span))
         | None \<Rightarrow>
             (\<lparr>status = 200, jsonBody = [(''message'', ''success'')]\<rparr>, End span))"

section \<open>Formatting a value with \<open>%v\<close>\<close>

text \<open>
  \<open>fmt.Sprintf("%v", v)\<close> of the Go standard library, on the values of \<open>any\<close>: a
  string is itself, \<open>nil\<close> prints as \<open><nil>\<close>, an integer in decimal, a slice as its
  elements between brackets, and a map as \<open>map[k:v ...]\<close> with the keys in sorted
  order.
\<close>

fun joinSp :: "string list \<Rightarrow> string" where
  "joinSp [] = []"
| "joinSp [s] = s"
| "joinSp (s # t # ss) = s @ '' '' @ joinSp (t # ss)"

function decimal :: "nat \<Rightarrow> string" where
  "decimal n =
     (if n < 10 then [''0123456789'' ! n]
      else decimal (n div 10) @ [''0123456789'' ! (n mod 10)])"
  by pat_completeness auto
termination
  by (relation "measure id") auto

declare decimal.simps [simp del]

definition Itoa :: "int \<Rightarrow> string" where
  "Itoa i = (if i < 0 then CHR ''-'' # decimal (nat (- i)) else decimal (nat i))"

fun Sprintf_v :: "any \<Rightarrow> string" where
  "Sprintf_v ANil = ''<nil>''"
| "Sprintf_v (ABool b) = (if b then ''true'' else ''false'')"
| "Sprintf_v (AInt i) = Itoa i"
| "Sprintf_v (AString s) = s"
| "Sprintf_v (ASlice xs) = ''['' @ joinSp (map Sprintf_v xs) @ '']''"
| "Sprintf_v (AMapAny kvs) =
     ''map['' @ joinSp (map (\<lambda>(k, v). k @ '':'' @ Sprintf_v v) (sort_key fst kvs)) @ '']''"
| "Sprintf_v (AOther s) = s"

section \<open>JSON texts\<close>

text \<open>
  \<open>json.Unmarshal\<close> of the Go standard library first checks that the whole input is
  one JSON value in the syntax of RFC 8259, with white space around it, and only then
  decodes. The model reads the input into the value it denotes, or into nothing when
  the syntax is wrong: first the tokens, then the nesting, with the states and the stack
  of the library's scanner.
\<close>

datatype json =
    JNull
  | JBool bool
  | JNumber string
  | JString string
  | JArray "json list"
  | JObject "(string \<times> json) list"

datatype token =
    LBrace | RBrace | LBracket | RBracket | Colon | Comma
  | TString string | TNumber string | TTrue | TFalse | TNull

definition isSpace :: "char \<Rightarrow> bool" where
  "isSpace c = (c = CHR '' '' \<or> c = CHR 0x09 \<or> c = CHR 0x0D \<or> c = CHR 0x0A)"

definition isDigit :: "char \<Rightarrow> bool" where
  "isDigit c = (c \<in> set ''0123456789'')"

definition isHex :: "char \<Rightarrow> bool" where
  "isHex c = (c \<in> set ''0123456789abcdefABCDEF'')"

text \<open>
  A string literal, from after its opening quote (\<open>CHR 0x22\<close>): the text up to the
  closing quote, escapes (after \<open>CHR 0x5C\<close>, the backslash) still in place, and the
  input after the closing quote. A control character, an unknown escape and a \<open>u\<close>
  escape without four hex digits are errors; bytes from \<open>0x80\<close> on are taken as they
  are.
\<close>

fun scanString :: "string \<Rightarrow> (string \<times> string) option" where
  "scanString [] = None"
| "scanString (c # cs) =
     (if c = CHR 0x22 then Some ([], cs)
      else if c = CHR 0x5C then
        (case cs of
           [] \<Rightarrow> None
         | e # cs' \<Rightarrow>
             if e \<in> set [CHR 0x22, CHR 0x5C, CHR ''/'', CHR ''b'', CHR ''f'', CHR ''n'',
                          CHR ''r'', CHR ''t'']
             then (case scanString cs' of
                     None \<Rightarrow> None
                   | Some (raw, rest) \<Rightarrow> Some (c # e # raw, rest))
             else if e = CHR ''u'' \<and> length (takeWhile isHex (take 4 cs')) = 4
             then (case scanString cs' of
                     None \<Rightarrow> None
                   | Some (raw, rest) \<Rightarrow> Some (c # e # raw, rest))
             else None)
      else if (of_char c :: nat) < 0x20 then None
      else (case scanString cs of
              None \<Rightarrow> None
            | Some (raw, rest) \<Rightarrow> Some (c # raw, rest)))"

text \<open>
  A number: an optional minus sign, the integer part (\<open>0\<close>, or digits that do not start
  with \<open>0\<close>), an optional fraction and an optional exponent. Each part gives the input
  that is left after it.
\<close>

definition skipMinus :: "string \<Rightarrow> string" where
  "skipMinus cs = (case cs of [] \<Rightarrow> cs | c # r \<Rightarrow> if c = CHR ''-'' then r else cs)"

definition scanDigits1 :: "string \<Rightarrow> string option" where
  "scanDigits1 cs =
     (case cs of [] \<Rightarrow> None | d # r \<Rightarrow> if isDigit d then Some (dropWhile isDigit r) else None)"

definition scanInt :: "string \<Rightarrow> string option" where
  "scanInt cs =
     (case cs of [] \<Rightarrow> None | d # r \<Rightarrow> if d = CHR ''0'' then Some r else scanDigits1 cs)"

definition scanFrac :: "string \<Rightarrow> string option" where
  "scanFrac cs =
     (case cs of [] \<Rightarrow> Some cs | p # r \<Rightarrow> if p = CHR ''.'' then scanDigits1 r else Some cs)"

definition skipSign :: "string \<Rightarrow> string" where
  "skipSign cs =
     (case cs of [] \<Rightarrow> cs | s # r \<Rightarrow> if s = CHR ''+'' \<or> s = CHR ''-'' then r else cs)"

definition scanExp :: "string \<Rightarrow> string option" where
  "scanExp cs =
     (case cs of
        [] \<Rightarrow> Some cs
      | e # r \<Rightarrow> if e = CHR ''e'' \<or> e = CHR ''E'' then scanDigits1 (skipSign r) else Some cs)"

definition scanNumber :: "string \<Rightarrow> (string \<times> string) option" where
  "scanNumber cs =
     (case Option.bind (Option.bind (scanInt (skipMinus cs)) scanFrac) scanExp of
        None \<Rightarrow> None
      | Some rest \<Rightarrow> Some (take (length cs - length rest) cs, rest))"

text \<open>
  The string a literal denotes (\<open>unquote\<close> in the library). A \<open>u\<close> escape is the UTF-8
  encoding of its code point; a surrogate makes one code point with the low surrogate
  of a \<open>u\<close> escape that follows it, and is the replacement character \<open>U+FFFD\<close>
  otherwise. A byte from \<open>0x80\<close> on is kept when it starts a well-formed UTF-8 sequence
  (\<open>utf8Len\<close> is the length of that sequence, 0 when there is none) and is replaced by
  \<open>U+FFFD\<close> otherwise.
\<close>

definition hexVal :: "char \<Rightarrow> nat" where
  "hexVal c =
     (if isDigit c then of_char c - 48
      else if c \<in> set ''abcdef'' then of_char c - 87
      else of_char c - 55)"

definition getu4 :: "string \<Rightarrow> nat" where
  "getu4 cs = foldl (\<lambda>r c. r * 16 + hexVal c) 0 (take 4 cs)"

definition replacementChar :: string where
  "replacementChar = [CHR 0xEF, CHR 0xBF, CHR 0xBD]"

definition EncodeRune :: "nat \<Rightarrow> string" where
  "EncodeRune r =
     (if r < 0x80 then [char_of r]
      else if r < 0x800 then [char_of (0xC0 + r div 0x40), char_of (0x80 + r mod 0x40)]
      else if (0xD800 \<le> r \<and> r < 0xE000) \<or> 0x10FFFF < r then replacementChar
      else if r < 0x10000 then
        [char_of (0xE0 + r div 0x1000), char_of (0x80 + r div 0x40 mod 0x40),
         char_of (0x80 + r mod 0x40)]
      else
        [char_of (0xF0 + r div 0x40000), char_of (0x80 + r div 0x1000 mod 0x40),
         char_of (0x80 + r div 0x40 mod 0x40), char_of (0x80 + r mod 0x40)])"

definition between :: "nat \<Rightarrow> nat \<Rightarrow> char \<Rightarrow> bool" where
  "between lo hi c = (lo \<le> of_char c \<and> (of_char c :: nat) \<le> hi)"

definition utf8Len :: "string \<Rightarrow> nat" where
  "utf8Len cs =
     (case cs of
        b0 # b1 # rest \<Rightarrow>
          (if between 0xC2 0xDF b0 then (if between 0x80 0xBF b1 then 2 else 0)
           else
             (let second =
                    (if b0 = CHR 0xE0 then between 0xA0 0xBF b1
                     else if b0 = CHR 0xED then between 0x80 0x9F b1
                     else if b0 = CHR 0xF0 then between 0x90 0xBF b1
                     else if b0 = CHR 0xF4 then between 0x80 0x8F b1
                     else between 0x80 0xBF b1)
              in if between 0xE0 0xEF b0 then
                   (case rest of
                      b2 # rest' \<Rightarrow> if second \<and> between 0x80 0xBF b2 then 3 else 0
                    | [] \<Rightarrow> 0)
                 else if between 0xF0 0xF4 b0 then
                   (case rest of
                      b2 # b3 # rest' \<Rightarrow>
                        if second \<and> between 0x80 0xBF b2 \<and> between 0x80 0xBF b3 then 4 else 0
                    | _ \<Rightarrow> 0)
                 else 0))
      | _ \<Rightarrow> 0)"

definition unescape :: "char \<Rightarrow> char" where
  "unescape e =
     (if e = CHR ''b'' then CHR 0x08
      else if e = CHR ''f'' then CHR 0x0C
      else if e = CHR ''n'' then CHR 0x0A
      else if e = CHR ''r'' then CHR 0x0D
      else if e = CHR ''t'' then CHR 0x09
      else e)"

function unquote :: "string \<Rightarrow> string" where
  "unquote [] = []"
| "unquote (c # cs) =
     (if c = CHR 0x5C then
        (case cs of
           [] \<Rightarrow> []
         | e # cs' \<Rightarrow>
             if e = CHR ''u'' then
               (let r = getu4 cs'; rest = drop 4 cs'; r1 = getu4 (drop 2 rest)
                in if 0xD800 \<le> r \<and> r < 0xE000 then
                     (if r < 0xDC00 \<and> take 2 rest = [CHR 0x5C, CHR ''u'']
                         \<and> length (takeWhile isHex (take 4 (drop 2 rest))) = 4
                         \<and> 0xDC00 \<le> r1 \<and> r1 < 0xE000
                      then EncodeRune (0x10000 + (r - 0xD800) * 0x400 + (r1 - 0xDC00))
                             @ unquote (drop 6 rest)
                      else replacementChar @ unquote rest)
                   else EncodeRune r @ unquote rest)
             else unescape e # unquote cs')
      else if (of_char c :: nat) < 0x80 then c # unquote cs
      else
        (let n = utf8Len (c # cs)
         in if n = 0 then replacementChar @ unquote cs
            else take n (c # cs) @ unquote (drop n (c # cs))))"
  by pat_completeness auto
termination
  by (relation "measure length") auto

text \<open>
  The tokens of an input. The scanners of strings and of numbers leave less input than
  they get, which is why the function ends.
\<close>

lemma scanString_shorter: "scanString cs = Some (raw, rest) \<Longrightarrow> length rest < length cs"
proof (induction "length cs" arbitrary: cs raw rest rule: less_induct)
  case less
  show ?case
  proof (cases cs)
    case Nil
    with less.prems show ?thesis by simp
  next
    case (Cons c cs')
    have IH: "\<And>xs raw' rest'. length xs \<le> length cs' \<Longrightarrow> scanString xs = Some (raw', rest')
                 \<Longrightarrow> length rest' < length xs"
      using less.hyps by (simp add: Cons)
    from less.prems show ?thesis
      unfolding Cons
      by (auto split: if_splits list.splits option.splits dest!: IH [rotated])
  qed
qed

lemma skipMinus_le: "length (skipMinus cs) \<le> length cs"
  by (simp add: skipMinus_def split: list.splits)

lemma skipSign_le: "length (skipSign cs) \<le> length cs"
  by (simp add: skipSign_def split: list.splits)

lemma scanDigits1_shorter: "scanDigits1 cs = Some rest \<Longrightarrow> length rest < length cs"
  using length_dropWhile_le [of isDigit "tl cs"]
  by (auto simp: scanDigits1_def split: list.splits if_splits)

lemma scanInt_shorter: "scanInt cs = Some rest \<Longrightarrow> length rest < length cs"
  using scanDigits1_shorter [of cs rest]
  by (auto simp: scanInt_def split: list.splits if_splits)

lemma scanFrac_le: "scanFrac cs = Some rest \<Longrightarrow> length rest \<le> length cs"
  using scanDigits1_shorter [of "tl cs" rest]
  by (auto simp: scanFrac_def split: list.splits if_splits)

lemma scanExp_le: "scanExp cs = Some rest \<Longrightarrow> length rest \<le> length cs"
  using scanDigits1_shorter [of "skipSign (tl cs)" rest] skipSign_le [of "tl cs"]
  by (auto simp: scanExp_def split: list.splits if_splits)

lemma scanNumber_shorter:
  assumes "scanNumber cs = Some (t, rest)"
  shows "length rest < length cs"
proof -
  from assms obtain r1 r2 where
    r1: "scanInt (skipMinus cs) = Some r1" and r2: "scanFrac r1 = Some r2"
    and r3: "scanExp r2 = Some rest"
    by (auto simp: scanNumber_def split: option.splits Option.bind_splits)
  from scanInt_shorter [OF r1] skipMinus_le [of cs] scanFrac_le [OF r2] scanExp_le [OF r3]
  show ?thesis by simp
qed

function tokenize :: "string \<Rightarrow> token list option" where
  "tokenize [] = Some []"
| "tokenize (c # cs) =
     (if isSpace c then tokenize cs
      else if c = CHR ''{'' then map_option ((#) LBrace) (tokenize cs)
      else if c = CHR ''}'' then map_option ((#) RBrace) (tokenize cs)
      else if c = CHR ''['' then map_option ((#) LBracket) (tokenize cs)
      else if c = CHR '']'' then map_option ((#) RBracket) (tokenize cs)
      else if c = CHR '':'' then map_option ((#) Colon) (tokenize cs)
      else if c = CHR '','' then map_option ((#) Comma) (tokenize cs)
      else if c = CHR 0x22 then
        (case scanString cs of
           None \<Rightarrow> None
         | Some (raw, rest) \<Rightarrow> map_option ((#) (TString (unquote raw))) (tokenize rest))
      else if c = CHR ''-'' \<or> isDigit c then
        (case scanNumber (c # cs) of
           None \<Rightarrow> None
         | Some (num, rest) \<Rightarrow> map_option ((#) (TNumber num)) (tokenize rest))
      else if c = CHR ''t'' \<and> take 3 cs = ''rue''
        then map_option ((#) TTrue) (tokenize (drop 3 cs))
      else if c = CHR ''f'' \<and> take 4 cs = ''alse''
        then map_option ((#) TFalse) (tokenize (drop 4 cs))
      else if c = CHR ''n'' \<and> take 3 cs = ''ull''
        then map_option ((#) TNull) (tokenize (drop 3 cs))
      else None)"
  by pat_completeness auto
termination
proof (relation "measure length")
  fix c cs x2 raw rest
  assume "scanString cs = Some x2" and "(raw, rest) = x2"
  then have "length rest < length cs"
    using scanString_shorter [of cs raw rest] by simp
  then show "(rest, c # cs) \<in> measure length" by simp
next
  fix c cs x2 num rest
  assume "scanNumber (c # cs) = Some x2" and "(num, rest) = x2"
  then show "(rest, c # cs) \<in> measure length"
    using scanNumber_shorter [of "c # cs" num rest] by simp
qed simp_all

text \<open>
  The nesting. The states are the ones of the library's scanner: a value is expected
  (\<open>BeginValue\<close>; \<open>BeginValueOrEmpty\<close> after an opening bracket, where the array may
  also close), a key is expected (\<open>BeginString\<close>; \<open>BeginStringOrEmpty\<close> after an
  opening brace), the colon after a key is expected (\<open>ObjectKey\<close>), or a value has just
  ended (\<open>EndValue\<close>). The stack holds the arrays and objects that are open, with what
  has been read of them; it may not grow beyond \<open>maxNestingDepth\<close>.
\<close>

datatype expect =
    BeginValue | BeginValueOrEmpty | BeginStringOrEmpty | BeginString | ObjectKey | EndValue

datatype frame = ArrayFrame "json list" | ObjectFrame "(string \<times> json) list" "string option"

definition maxNestingDepth :: nat where
  "maxNestingDepth = 10000"

type_synonym scanner = "expect \<times> frame list \<times> json option"

fun endValue :: "json \<Rightarrow> frame list \<Rightarrow> scanner option" where
  "endValue v [] = Some (EndValue, [], Some v)"
| "endValue v (ArrayFrame vs # stack) = Some (EndValue, ArrayFrame (vs @ [v]) # stack, None)"
| "endValue v (ObjectFrame ms (Some k) # stack) =
     Some (EndValue, ObjectFrame (ms @ [(k, v)]) None # stack, None)"
| "endValue v (ObjectFrame ms None # stack) = None"

fun beginValue :: "token \<Rightarrow> frame list \<Rightarrow> scanner option" where
  "beginValue LBrace stack =
     (if length stack < maxNestingDepth
      then Some (BeginStringOrEmpty, ObjectFrame [] None # stack, None) else None)"
| "beginValue LBracket stack =
     (if length stack < maxNestingDepth
      then Some (BeginValueOrEmpty, ArrayFrame [] # stack, None) else None)"
| "beginValue (TString s) stack = endValue (JString s) stack"
| "beginValue (TNumber n) stack = endValue (JNumber n) stack"
| "beginValue TTrue stack = endValue (JBool True) stack"
| "beginValue TFalse stack = endValue (JBool False) stack"
| "beginValue TNull stack = endValue JNull stack"
| "beginValue _ stack = None"

fun beginString :: "token \<Rightarrow> frame list \<Rightarrow> scanner option" where
  "beginString (TString k) (ObjectFrame ms None # stack) =
     Some (ObjectKey, ObjectFrame ms (Some k) # stack, None)"
| "beginString _ _ = None"

fun step :: "scanner \<Rightarrow> token \<Rightarrow> scanner option" where
  "step (BeginValue, stack, res) t = beginValue t stack"
| "step (BeginValueOrEmpty, stack, res) t =
     (case (t, stack) of
        (RBracket, ArrayFrame vs # stack') \<Rightarrow> endValue (JArray vs) stack'
      | _ \<Rightarrow> beginValue t stack)"
| "step (BeginStringOrEmpty, stack, res) t =
     (case (t, stack) of
        (RBrace, ObjectFrame ms None # stack') \<Rightarrow> endValue (JObject ms) stack'
      | _ \<Rightarrow> beginString t stack)"
| "step (BeginString, stack, res) t = beginString t stack"
| "step (ObjectKey, stack, res) t =
     (case t of Colon \<Rightarrow> Some (BeginValue, stack, None) | _ \<Rightarrow> None)"
| "step (EndValue, stack, res) t =
     (case (t, stack) of
        (Comma, ArrayFrame vs # stack') \<Rightarrow> Some (BeginValue, stack, None)
      | (RBracket, ArrayFrame vs # stack') \<Rightarrow> endValue (JArray vs) stack'
      | (Comma, ObjectFrame ms None # stack') \<Rightarrow> Some (BeginString, stack, None)
      | (RBrace, ObjectFrame ms None # stack') \<Rightarrow> endValue (JObject ms) stack'
      | _ \<Rightarrow> None)"

fun run :: "scanner \<Rightarrow> token list \<Rightarrow> scanner option" where
  "run s [] = Some s"
| "run s (t # ts) = (case step s t of None \<Rightarrow> None | Some s' \<Rightarrow> run s' ts)"

text \<open>
  The value a text denotes: \<open>None\<close> is a text \<open>checkValid\<close> refuses (a syntax error).
\<close>

definition parseJSON :: "string \<Rightarrow> json option" where
  "parseJSON text =
     (case tokenize text of
        None \<Rightarrow> None
      | Some ts \<Rightarrow>
          (case run (BeginValue, [], None) ts of
             Some (EndValue, [], Some v) \<Rightarrow> Some v
           | _ \<Rightarrow> None))"

section \<open>Decoding into a \<open>map[string]string\<close>\<close>

text \<open>
  A \<open>map[string]string\<close> variable: \<open>None\<close> is the nil map.

  \<open>json.Unmarshal(data, &v)\<close> for such a variable, as the documentation of the
  function has it. A syntax error leaves the variable as it was. The JSON value \<open>null\<close>
  sets the variable to nil. A JSON object is decoded into the map the variable holds (a
  new one when it is nil), member after member, a later member replacing an earlier one
  of the same key: a string is stored as it is; a member of another kind is not
  appropriate for a string, the decoder notes an \<open>UnmarshalTypeError\<close>, goes on, and
  the key holds the zero value of the element type, the empty string (which is also
  what \<open>null\<close> leaves there, without an error). Any other JSON value is an
  \<open>UnmarshalTypeError\<close> and leaves the variable as it was.
\<close>

type_synonym StringMap = "(string \<rightharpoonup> string) option"

datatype UnmarshalError = SyntaxError | UnmarshalTypeError

fun stringOf :: "json \<Rightarrow> string" where
  "stringOf (JString s) = s"
| "stringOf _ = []"

fun fitsString :: "json \<Rightarrow> bool" where
  "fitsString (JString s) = True"
| "fitsString JNull = True"
| "fitsString _ = False"

fun decodeMembers :: "(string \<times> json) list \<Rightarrow> (string \<rightharpoonup> string) \<Rightarrow> (string \<rightharpoonup> string)" where
  "decodeMembers [] m = m"
| "decodeMembers ((key, v) # members) m = decodeMembers members (m(key \<mapsto> stringOf v))"

definition Unmarshal :: "string \<Rightarrow> StringMap \<Rightarrow> UnmarshalError option \<times> StringMap" where
  "Unmarshal data v =
     (case parseJSON data of
        None \<Rightarrow> (Some SyntaxError, v)
      | Some JNull \<Rightarrow> (None, None)
      | Some (JObject members) \<Rightarrow>
          (if list_all (fitsString \<circ> snd) members then None else Some UnmarshalTypeError,
           Some (decodeMembers members (case v of None \<Rightarrow> Map.empty | Some m \<Rightarrow> m)))
      | Some other \<Rightarrow> (Some UnmarshalTypeError, v))"

section \<open>\<open>ConvertToMap\<close>\<close>

text \<open>
  \<^verbatim>\<open>
  func ConvertToMap(raw any) map[string]string {
          traceMap := make(map[string]string)
          switch t := raw.(type) {
          case map[string]any:
                  for k, v := range t {
                          traceMap[k] = fmt.Sprintf("%v", v)
                  }
          case string:
                  _ = json.Unmarshal([]byte(t), &traceMap)
          }
          return traceMap
  }
  \<close>
  The loop assigns into the map that \<open>make\<close> allocated, so it cannot panic; no other
  statement of the function can.
\<close>

fun rangeAssign :: "(string \<times> any) list \<Rightarrow> (string \<rightharpoonup> string) \<Rightarrow> (string \<rightharpoonup> string)" where
  "rangeAssign [] traceMap = traceMap"
| "rangeAssign ((k, v) # t) traceMap = rangeAssign t (traceMap(k \<mapsto> Sprintf_v v))"

definition ConvertToMap :: "any \<Rightarrow> StringMap" where
  "ConvertToMap raw =
     (case raw of
        AMapAny t \<Rightarrow> Some (rangeAssign t Map.empty)
      | AString t \<Rightarrow> snd (Unmarshal t (Some Map.empty))
      | _ \<Rightarrow> Some Map.empty)"

chapter \<open>Properties\<close>

text \<open>Unfolding \<open>hex_digits\<close> at a numeral, for evaluation.\<close>

lemma hex_digits_numeral:
  "hex_digits (numeral v) n = hex_digits (pred_numeral v) (n div 16) @ [hexdigit (n mod 16)]"
  using hex_digits.simps(2) [of "pred_numeral v" n] by (simp only: numeral_eq_Suc [symmetric])

section \<open>Carrier.Set\<close>

text \<open>
  C3, as the code has it. On a carrier whose header table is allocated, \<open>Set\<close> succeeds
  for every key and value and stores the value as a string under the key, leaving every
  other entry as it was. On a carrier whose header table is nil it panics: the method
  never allocates the table. (Every carrier the repository injects into is built from
  \<open>make(amqp091.Table)\<close>.)
\<close>

theorem Set_stores_or_panics:
  "Set \<lparr>headers = Some m\<rparr> key value = Inr \<lparr>headers = Some (m(key \<mapsto> AString value))\<rparr>
   \<and> Get \<lparr>headers = Some (m(key \<mapsto> AString value))\<rparr> key = Inr value
   \<and> Set \<lparr>headers = None\<rparr> key value = Inl AssignmentToEntryInNilMap"
  by (simp add: Set_def Get_def table_lookup_def)

text \<open>
  C3 as the specification states it fails: on the nil table, the first write of the
  trace header panics instead of allocating the store.
\<close>

theorem Set_nil_table_panics:
  "Set \<lparr>headers = None\<rparr> ''traceparent'' ''00-0af7651916cd43dd8448eb211c80319c-b7ad6b7169203331-01''
     = Inl AssignmentToEntryInNilMap"
  by (simp add: Set_def)

section \<open>Carrier.Get\<close>

text \<open>
  C4. \<open>Get\<close> never fails: for every carrier (its header table nil or allocated) and
  every key it returns a string. It returns the value when the key is present and the
  value is string-coercible, and the empty string when the key is absent or the value
  is not string-coercible. What the code means by string-coercible is that the type
  assertion \<open>val.(string)\<close> succeeds: a header value of another dynamic type, such as
  a number, is not converted and reads as the empty string (last part).
\<close>

theorem Get_string_or_empty:
  "(\<exists>s. Get c key = Inr s)
   \<and> (table_lookup (headers c) key = Some v \<and> assert_string v = Some s
        \<longrightarrow> Get c key = Inr s)
   \<and> (table_lookup (headers c) key = None
        \<or> (table_lookup (headers c) key = Some v \<and> assert_string v = None)
        \<longrightarrow> Get c key = Inr [])
   \<and> Get \<lparr>headers = None\<rparr> key = Inr []
   \<and> Get \<lparr>headers = Some (m(key \<mapsto> AInt n))\<rparr> key = Inr []"
  by (auto simp: Get_def table_lookup_def split: option.splits)

theorem Get_string_or_empty_witness:
  "Get \<lparr>headers = Some [''traceparent'' \<mapsto> AString ''00-0af7651916cd43dd8448eb211c80319c-b7ad6b7169203331-01'',
                          ''x-retries'' \<mapsto> AInt 3]\<rparr> ''traceparent''
     = Inr ''00-0af7651916cd43dd8448eb211c80319c-b7ad6b7169203331-01''
   \<and> Get \<lparr>headers = Some [''traceparent'' \<mapsto> AString ''00-0af7651916cd43dd8448eb211c80319c-b7ad6b7169203331-01'',
                          ''x-retries'' \<mapsto> AInt 3]\<rparr> ''x-retries'' = Inr []
   \<and> Get \<lparr>headers = Some [''x-retries'' \<mapsto> AInt 3]\<rparr> ''baggage'' = Inr []"
  using
    Get_string_or_empty [of
      "\<lparr>headers = Some [''traceparent'' \<mapsto> AString ''00-0af7651916cd43dd8448eb211c80319c-b7ad6b7169203331-01'',
                          ''x-retries'' \<mapsto> AInt 3]\<rparr>"
      "''traceparent''"
      "AString ''00-0af7651916cd43dd8448eb211c80319c-b7ad6b7169203331-01''"
      "''00-0af7651916cd43dd8448eb211c80319c-b7ad6b7169203331-01''"]
    Get_string_or_empty [of
      "\<lparr>headers = Some [''traceparent'' \<mapsto> AString ''00-0af7651916cd43dd8448eb211c80319c-b7ad6b7169203331-01'',
                          ''x-retries'' \<mapsto> AInt 3]\<rparr>"
      "''x-retries''" "AInt 3"]
    Get_string_or_empty [of "\<lparr>headers = Some [''x-retries'' \<mapsto> AInt 3]\<rparr>" "''baggage''"]
  by (simp add: table_lookup_def)

section \<open>The log correlator\<close>

text \<open>
  C5. When the span of the context has a valid span context, the logger \<open>WithTrace\<close>
  returns is the base logger with fields added: first \<open>trace_id\<close>, the hex string of
  the trace id, and then \<open>span_id\<close>, the span-id string that was passed, if and only
  if that string is not empty. When the context carries no valid trace, \<open>WithTrace\<close>
  returns the base logger itself.
\<close>

theorem WithTrace_correlates:
  "(IsValid (spanContext (SpanFromContext ctx)) \<longrightarrow>
      (\<exists>added.
          logFields (WithTrace logger ctx spanId) = logFields logger @ added
        \<and> map_of added ''trace_id''
            = Some (TraceID_String (traceID (spanContext (SpanFromContext ctx))))
        \<and> (spanId \<noteq> [] \<longrightarrow> map_of added ''span_id'' = Some spanId)
        \<and> (''span_id'' \<in> fst ` set added \<longleftrightarrow> spanId \<noteq> [])
        \<and> fst ` set added \<subseteq> {''trace_id'', ''span_id''}))
   \<and> (\<not> IsValid (spanContext (SpanFromContext ctx)) \<longrightarrow>
        WithTrace logger ctx spanId = logger)"
  by (cases logger) (auto simp: WithTrace_def With_def zap_String_def Let_def)

theorem WithTrace_correlates_witness:
  "IsValid (spanContext (SpanFromContext (ContextWithSpan Background (nonRecordingSpan
       \<lparr>traceID = 0x0af7651916cd43dd8448eb211c80319c, spanID = 0xb7ad6b7169203331,
        traceFlags = 1, remote = True\<rparr>))))
   \<and> WithTrace (Logger [(''service'', ''consumer-1'')])
         (ContextWithSpan Background (nonRecordingSpan
            \<lparr>traceID = 0x0af7651916cd43dd8448eb211c80319c, spanID = 0xb7ad6b7169203331,
             traceFlags = 1, remote = True\<rparr>))
         ''00f067aa0ba902b7''
       = Logger [(''service'', ''consumer-1''),
                 (''trace_id'', ''0af7651916cd43dd8448eb211c80319c''),
                 (''span_id'', ''00f067aa0ba902b7'')]
   \<and> WithTrace (Logger [(''service'', ''consumer-1'')])
         (ContextWithSpan Background (nonRecordingSpan
            \<lparr>traceID = 0x0af7651916cd43dd8448eb211c80319c, spanID = 0xb7ad6b7169203331,
             traceFlags = 1, remote = True\<rparr>))
         []
       = Logger [(''service'', ''consumer-1''),
                 (''trace_id'', ''0af7651916cd43dd8448eb211c80319c'')]
   \<and> \<not> IsValid (spanContext (SpanFromContext Background))
   \<and> WithTrace (Logger [(''service'', ''consumer-1'')]) Background ''00f067aa0ba902b7''
       = Logger [(''service'', ''consumer-1'')]"
proof -
  let ?ctx = "ContextWithSpan Background (nonRecordingSpan
       \<lparr>traceID = 0x0af7651916cd43dd8448eb211c80319c, spanID = 0xb7ad6b7169203331,
        traceFlags = 1, remote = True\<rparr>)"
  let ?base = "Logger [(''service'', ''consumer-1'')]"
  have valid: "IsValid (spanContext (SpanFromContext ?ctx))"
    by (simp add: ContextWithSpan_def SpanFromContext_def nonRecordingSpan_def IsValid_def)
  have invalid: "\<not> IsValid (spanContext (SpanFromContext Background))"
    by (simp add: Background_def SpanFromContext_def noopSpan_def emptySpanContext_def
        IsValid_def)
  have tid: "TraceID_String (traceID (spanContext (SpanFromContext ?ctx)))
               = ''0af7651916cd43dd8448eb211c80319c''"
    by (simp add: ContextWithSpan_def SpanFromContext_def nonRecordingSpan_def
        TraceID_String_def hex_digits_numeral hexdigit_def)
  have both: "WithTrace ?base ?ctx ''00f067aa0ba902b7''
                = Logger [(''service'', ''consumer-1''),
                          (''trace_id'', ''0af7651916cd43dd8448eb211c80319c''),
                          (''span_id'', ''00f067aa0ba902b7'')]"
    using valid tid by (simp add: WithTrace_def With_def zap_String_def Let_def)
  have only_trace: "WithTrace ?base ?ctx []
                = Logger [(''service'', ''consumer-1''),
                          (''trace_id'', ''0af7651916cd43dd8448eb211c80319c'')]"
    using valid tid by (simp add: WithTrace_def With_def zap_String_def Let_def)
  have none: "WithTrace ?base Background ''00f067aa0ba902b7'' = ?base"
    using WithTrace_correlates [of Background ?base "''00f067aa0ba902b7''"] invalid by simp
  from valid both only_trace invalid none show ?thesis by simp
qed

section \<open>The span-id string of the span tracer\<close>

text \<open>
  The string \<open>SpanID.String\<close> gives is canonical lowercase hex: sixteen digits of the
  table \<open>0123456789abcdef\<close>. \<open>Trace\<close> returns that string for the id of the span the
  tracer started, whatever the tracer.
\<close>

lemma hexdigit_in_table: "hexdigit n \<in> set ''0123456789abcdef''"
  unfolding hexdigit_def by (rule nth_mem) simp

lemma hex_digits_canonical:
  "length (hex_digits k n) = k \<and> set (hex_digits k n) \<subseteq> set ''0123456789abcdef''"
proof (induction k arbitrary: n)
  case 0
  show ?case by simp
next
  case (Suc k)
  from Suc [of "n div 16"] hexdigit_in_table [of "n mod 16"]
  show ?case by simp
qed

lemma SpanID_String_canonical:
  "length (SpanID_String s) = 16 \<and> set (SpanID_String s) \<subseteq> set ''0123456789abcdef''"
  unfolding SpanID_String_def by (rule hex_digits_canonical)

lemma Trace_span_id_hex:
  "snd (snd (Trace provider ctx layer funcName spanName))
     = SpanID_String (spanID (spanContext (fst (snd (Trace provider ctx layer funcName spanName)))))"
  by (simp add: Trace_def Let_def split: prod.splits)

text \<open>
  The guarded derivation of the consumers gives the empty string for the no-op span,
  and for every span whose span context is not valid.
\<close>

lemma currentSpanId_noopSpan: "currentSpanId noopSpan = []"
  by (simp add: currentSpanId_def noopSpan_def emptySpanContext_def IsValid_def)

lemma currentSpanId_empty_iff: "currentSpanId span = [] \<longleftrightarrow> \<not> IsValid (spanContext span)"
  using SpanID_String_canonical [of "spanID (spanContext span)"]
  by (auto simp: currentSpanId_def)

text \<open>
  Whatever the tracer, when the span it starts has the zero span context, the string
  \<open>Trace\<close> returns is sixteen zeros.
\<close>

lemma SpanID_String_zero: "SpanID_String 0 = ''0000000000000000''"
  by (simp add: SpanID_String_def hex_digits_numeral hexdigit_def)

lemma Trace_zero_span_context:
  assumes "spanContext (snd (provider (layer @ ''/'' @ funcName) ctx spanName)) = emptySpanContext"
  shows "snd (snd (Trace provider ctx layer funcName spanName)) = ''0000000000000000''"
proof -
  obtain ctx' span where start: "provider (layer @ ''/'' @ funcName) ctx spanName = (ctx', span)"
    by (cases "provider (layer @ ''/'' @ funcName) ctx spanName")
  with assms have "spanID (spanContext span) = 0"
    by (simp add: emptySpanContext_def)
  with start SpanID_String_zero show ?thesis
    by (simp add: Trace_def)
qed

text \<open>
  C6, where the code departs from it. With tracing disabled (the no-op tracer provider,
  or no provider installed at all) and a context without a span, the span \<open>Trace\<close>
  gets is a placeholder, and the span-id string \<open>Trace\<close> returns is not empty: it is
  the sixteen zeros that are the hex string of the zero span id. (The handlers of app-1
  and app-2 compute the string the same way.)
\<close>

theorem Trace_noop_span_id_is_zeros:
  "Trace noopTracerProvider Background layer funcName spanName
     = (ContextWithSpan Background noopSpan, noopSpan, ''0000000000000000'')
   \<and> snd (snd (Trace defaultTracerProvider Background layer funcName spanName))
     = ''0000000000000000''"
proof -
  have zeros: "SpanID_String (spanID (spanContext noopSpan)) = ''0000000000000000''"
    using SpanID_String_zero by (simp add: noopSpan_def emptySpanContext_def)
  have start: "noopTracer_Start Background spanName = (ContextWithSpan Background noopSpan, noopSpan)"
    by (simp add: noopTracer_Start_def SpanFromContext_def Background_def noopSpan_def Let_def)
  have noop: "Trace noopTracerProvider Background layer funcName spanName
                = (ContextWithSpan Background noopSpan, noopSpan, ''0000000000000000'')"
    using zeros start by (simp add: Trace_def noopTracerProvider_def)
  have "spanContext (snd (defaultTracerProvider (layer @ ''/'' @ funcName) Background spanName))
          = emptySpanContext"
    by (simp add: defaultTracerProvider_def defaultTracer_Start_def Let_def SpanFromContext_def
        Background_def nonRecordingSpan_def noopSpan_def)
  then have "snd (snd (Trace defaultTracerProvider Background layer funcName spanName))
               = ''0000000000000000''"
    by (rule Trace_zero_span_context)
  with noop show ?thesis by simp
qed

section \<open>Acknowledgement and the end of the span\<close>

text \<open>
  \<open>Inject\<close> into a carrier built from \<open>make(amqp091.Table)\<close> cannot panic, so a unit of
  work of the consumer always runs to its end.
\<close>

lemma setAll_allocated:
  "\<exists>m'. setAll \<lparr>headers = Some m\<rparr> kvs = Inr \<lparr>headers = Some m'\<rparr>"
proof (induction kvs arbitrary: m)
  case Nil
  show ?case by simp
next
  case (Cons kv kvs)
  obtain key val where kv: "kv = (key, val)" by (cases kv)
  have step: "Set \<lparr>headers = Some m\<rparr> key val = Inr \<lparr>headers = Some (m(key \<mapsto> AString val))\<rparr>"
    by (simp add: Set_def)
  from Cons [of "m(key \<mapsto> AString val)"] obtain m' where
    rest: "setAll \<lparr>headers = Some (m(key \<mapsto> AString val))\<rparr> kvs = Inr \<lparr>headers = Some m'\<rparr>"
    by blast
  have "setAll \<lparr>headers = Some m\<rparr> (kv # kvs) = Inr \<lparr>headers = Some m'\<rparr>"
    unfolding kv setAll.simps step using rest by simp
  then show ?case by blast
qed

lemma Inject_make_Table:
  "\<exists>m'. Inject propagator ctx \<lparr>headers = make_Table\<rparr> = Inr \<lparr>headers = Some m'\<rparr>"
  unfolding Inject_def make_Table_def by (rule setAll_allocated)

text \<open>
  On the path without a processing error the order is the one the specification asks
  for: the span ends, then the delivery is acknowledged. This holds in both versions of
  the consumer.
\<close>

lemma ack_follows_span_end:
  assumes "Body d \<noteq> []" and "r \<noteq> 0"
  shows "\<exists>pre. eventsOf (handleDelivery provider propagator logger publishFails r d)
            = pre @ [SpanEnded ''Process Message'', Acked False]"
proof -
  define ctx0 where
    "ctx0 = (if hasHeaders (Headers d)
             then Extract propagator Background \<lparr>headers = Headers d\<rparr> else Background)"
  obtain ctx span where outer: "provider ''consumer-1'' ctx0 ''Process Message'' = (ctx, span)"
    by (cases "provider ''consumer-1'' ctx0 ''Process Message''")
  obtain ctx' inner where inner: "provider ''consumer-1'' ctx ''ProcessMessage'' = (ctx', inner)"
    by (cases "provider ''consumer-1'' ctx ''ProcessMessage''")
  obtain m' where inj: "Inject propagator ctx \<lparr>headers = make_Table\<rparr> = Inr \<lparr>headers = Some m'\<rparr>"
    using Inject_make_Table by blast
  show ?thesis
    using assms outer inner inj
    by (simp add: handleDelivery_def processMessage_def eventsOf_def Let_def ctx0_def [symmetric])
qed

lemma forwardDelivery_ack_follows_span_end:
  "\<exists>span pre. forwardDelivery provider propagator logger publishFails d
            = Inr (span, pre @ [SpanEnded ''Process Message'', Acked False])"
proof -
  define ctx0 where
    "ctx0 = (if hasHeaders (Headers d)
             then Extract propagator Background \<lparr>headers = Headers d\<rparr> else Background)"
  obtain ctx span where outer: "provider ''consumer-1'' ctx0 ''Process Message'' = (ctx, span)"
    by (cases "provider ''consumer-1'' ctx0 ''Process Message''")
  obtain m' where inj: "Inject propagator ctx \<lparr>headers = make_Table\<rparr> = Inr \<lparr>headers = Some m'\<rparr>"
    using Inject_make_Table by blast
  show ?thesis
    using outer inj
    by (simp add: forwardDelivery_def Let_def ctx0_def [symmetric])
qed

text \<open>
  C7, where the code departs from it. When \<open>processMessage\<close> returns an error (the
  body of the message is empty, or it is not and \<open>rand.Intn(3)\<close> draws 0), the unit of
  work ends with the negative acknowledgement \<open>d.Nack(false, true)\<close> followed by the
  call that ends the span \<open>Process Message\<close>: the message is handed back to the broker
  before the span has ended. This is so for every tracer provider, propagator, logger
  and header table.
\<close>

theorem nack_precedes_span_end:
  "(\<exists>pre. eventsOf (handleDelivery provider propagator logger publishFails r
                      \<lparr>Headers = h, Body = [], ContentType = ct\<rparr>)
           = pre @ [Nacked False True, SpanEnded ''Process Message''])
   \<and> \<not> completionFollowsEnd ''Process Message'' False
         (eventsOf (handleDelivery provider propagator logger publishFails r
                      \<lparr>Headers = h, Body = [], ContentType = ct\<rparr>))
   \<and> (\<exists>pre. eventsOf (handleDelivery provider propagator logger publishFails 0
                      \<lparr>Headers = h, Body = b # bs, ContentType = ct\<rparr>)
           = pre @ [Nacked False True, SpanEnded ''Process Message''])
   \<and> \<not> completionFollowsEnd ''Process Message'' False
         (eventsOf (handleDelivery provider propagator logger publishFails 0
                      \<lparr>Headers = h, Body = b # bs, ContentType = ct\<rparr>))"
  by (simp add: handleDelivery_def processMessage_def eventsOf_def Let_def split: prod.splits)

section \<open>Business errors and the status of the span\<close>

text \<open>
  The HTTP side does what the specification says. When \<open>simulateRandomError\<close> fails,
  the handler of \<open>/random-error\<close> records the error on its span, sets the status of the
  span to \<open>Error\<close> and answers 500 with the error in the body.
\<close>

lemma randomErrorHandler_status:
  "status (fst (randomErrorHandler (sdkTracerProvider tid sid) ctx 0)) = 500
   \<and> statusCode (snd (randomErrorHandler (sdkTracerProvider tid sid) ctx 0)) = Error
   \<and> recordedErrors (snd (randomErrorHandler (sdkTracerProvider tid sid) ctx 0))
       = [''simulated random error'']"
  by (simp add: randomErrorHandler_def simulateRandomError_def sdkTracerProvider_def
      sdkTracer_Start_def Let_def RecordError_def SetStatus_def End_def IsRecording_def)

text \<open>
  \<open>processMessage\<close> never changes the status of its span: it has no call of
  \<open>SetStatus\<close>.
\<close>

lemma processMessage_keeps_status:
  "statusCode (fst (snd (processMessage provider ctx log body r)))
     = statusCode (snd (provider ''consumer-1'' ctx ''ProcessMessage''))"
  by (simp add: processMessage_def Let_def RecordError_def End_def split: prod.splits)

text \<open>
  C8, where the code departs from it. On the recording span of the SDK tracer
  provider, a business error in \<open>processMessage\<close> is returned to the caller (which
  answers with a negative acknowledgement and requeue), but the span does not get the
  failure status: after the random processing error the error is recorded and the
  status is still \<open>Unset\<close>, and after the empty-body error nothing at all is recorded
  on the span.
\<close>

theorem processMessage_error_status_unset:
  "fst (processMessage (sdkTracerProvider tid sid) ctx log (b # bs) 0)
     = Some ''random processing error in consumer-1''
   \<and> recordedErrors (fst (snd (processMessage (sdkTracerProvider tid sid) ctx log (b # bs) 0)))
     = [''random processing error in consumer-1'']
   \<and> statusCode (fst (snd (processMessage (sdkTracerProvider tid sid) ctx log (b # bs) 0)))
     = Unset
   \<and> fst (processMessage (sdkTracerProvider tid sid) ctx log [] r)
     = Some ''empty message body''
   \<and> recordedErrors (fst (snd (processMessage (sdkTracerProvider tid sid) ctx log [] r))) = []
   \<and> statusCode (fst (snd (processMessage (sdkTracerProvider tid sid) ctx log [] r))) = Unset"
  by (simp add: processMessage_def sdkTracerProvider_def sdkTracer_Start_def Let_def
      RecordError_def End_def IsRecording_def)

section \<open>Extraction at the consumer\<close>

text \<open>
  What \<open>Extract\<close> makes of the fields it reads is the propagator's business. The
  repository's code settles two things before that. A header whose value is not a
  string reaches the propagator as the empty string, so a table that holds only such
  values is read like a carrier without any header. And for a delivery without headers
  the consumer does not call \<open>Extract\<close> at all: the unit of work starts from
  \<open>context.Background()\<close>, whatever the propagator.
\<close>

lemma getString_nonstring:
  assumes "\<forall>k v. m k = Some v \<longrightarrow> assert_string v = None"
  shows "getString \<lparr>headers = Some m\<rparr> = getString \<lparr>headers = None\<rparr>"
proof (rule ext)
  fix k
  from assms show "getString \<lparr>headers = Some m\<rparr> k = getString \<lparr>headers = None\<rparr> k"
    by (cases "m k") (simp_all add: getString_def Get_def table_lookup_def)
qed

lemma Extract_nonstring_headers:
  assumes "\<forall>k v. m k = Some v \<longrightarrow> assert_string v = None"
  shows "Extract propagator ctx \<lparr>headers = Some m\<rparr> = Extract propagator ctx \<lparr>headers = None\<rparr>"
  using getString_nonstring [OF assms] by (simp add: Extract_def)

lemma Inject_extractFrom_update:
  "Inject (propagator\<lparr>extractFrom := e\<rparr>) ctx carrier = Inject propagator ctx carrier"
  by (simp add: Inject_def)

lemma handleDelivery_without_headers:
  assumes "\<not> hasHeaders (Headers d)"
  shows "handleDelivery provider (propagator\<lparr>extractFrom := e\<rparr>) logger publishFails r d
           = handleDelivery provider propagator logger publishFails r d"
  using assms unfolding handleDelivery_def Inject_extractFrom_update by simp

section \<open>\<open>ConvertToMap\<close>\<close>

text \<open>
  The loops of \<open>ConvertToMap\<close> and of the decoder, as maps: the entry of a key is the
  one of its last occurrence in the list.
\<close>

lemma rangeAssign_eq:
  "rangeAssign t m =
     (\<lambda>k. case map_of (rev t) k of Some v \<Rightarrow> Some (Sprintf_v v) | None \<Rightarrow> m k)"
proof (induction t arbitrary: m)
  case Nil
  show ?case by simp
next
  case (Cons kv t)
  obtain k v where kv: "kv = (k, v)" by (cases kv)
  show ?case
    by (rule ext) (simp add: kv Cons map_add_def split: option.splits)
qed

lemma decodeMembers_eq:
  "decodeMembers ms m =
     (\<lambda>k. case map_of (rev ms) k of Some v \<Rightarrow> Some (stringOf v) | None \<Rightarrow> m k)"
proof (induction ms arbitrary: m)
  case Nil
  show ?case by simp
next
  case (Cons kv ms)
  obtain k v where kv: "kv = (k, v)" by (cases kv)
  show ?case
    by (rule ext) (simp add: kv Cons map_add_def split: option.splits)
qed

lemma map_of_rev_distinct:
  assumes "distinct (map fst xs)"
  shows "map_of (rev xs) = map_of xs"
proof (rule ext)
  fix k
  from assms have d: "distinct (map fst (rev xs))"
    by (metis distinct_rev rev_map)
  show "map_of (rev xs) k = map_of xs k"
  proof (cases "map_of xs k")
    case None
    then have "k \<notin> fst ` set xs" by (simp add: map_of_eq_None_iff)
    then have "map_of (rev xs) k = None" by (simp add: map_of_eq_None_iff)
    with None show ?thesis by simp
  next
    case (Some v)
    then have "(k, v) \<in> set (rev xs)" by (auto dest: map_of_SomeD)
    with d have "map_of (rev xs) k = Some v" by (rule map_of_is_SomeI)
    with Some show ?thesis by simp
  qed
qed

text \<open>Evaluating the JSON reader on a text.\<close>

lemmas json_eval = parseJSON_def maxNestingDepth_def isSpace_def scanNumber_def skipMinus_def
  scanInt_def scanFrac_def scanExp_def skipSign_def scanDigits1_def getu4_def hexVal_def
  isDigit_def isHex_def EncodeRune_def unescape_def utf8Len_def between_def
  replacementChar_def char_of_def bit_iff_odd

text \<open>
  C9, as the code has it. \<open>ConvertToMap\<close> is a total function. For a
  \<open>map[string]any\<close> it returns a non-nil map with, under each key, the \<open>%v\<close> string
  of the value. For a string that is not a JSON text, and for a JSON text whose value
  is neither an object nor \<open>null\<close>, it returns the empty non-nil map, and so it does
  for an input of any other type. But for the JSON text \<open>null\<close> it returns the nil
  map, and for a JSON object it returns a map with every key of the object: the string
  of a member that is a string, and the empty string for a member that is not.
\<close>

theorem ConvertToMap_cases:
  "(distinct (map fst t) \<longrightarrow>
      ConvertToMap (AMapAny t) = Some (\<lambda>k. map_option Sprintf_v (map_of t k)))
   \<and> (parseJSON s = None \<longrightarrow> ConvertToMap (AString s) = Some Map.empty)
   \<and> (parseJSON s = Some JNull \<longrightarrow> ConvertToMap (AString s) = None)
   \<and> (parseJSON s = Some (JObject ms) \<longrightarrow>
        ConvertToMap (AString s) = Some (\<lambda>k. map_option stringOf (map_of (rev ms) k)))
   \<and> (parseJSON s = Some v \<and> v \<noteq> JNull \<and> (\<forall>ms. v \<noteq> JObject ms) \<longrightarrow>
        ConvertToMap (AString s) = Some Map.empty)
   \<and> ((\<forall>t. raw \<noteq> AMapAny t) \<and> (\<forall>s. raw \<noteq> AString s) \<longrightarrow>
        ConvertToMap raw = Some Map.empty)"
proof (intro conjI impI)
  assume "distinct (map fst t)"
  then have "map_of (rev t) = map_of t" by (rule map_of_rev_distinct)
  then show "ConvertToMap (AMapAny t) = Some (\<lambda>k. map_option Sprintf_v (map_of t k))"
    by (simp add: ConvertToMap_def rangeAssign_eq map_option_case)
next
  assume "parseJSON s = None"
  then show "ConvertToMap (AString s) = Some Map.empty"
    by (simp add: ConvertToMap_def Unmarshal_def)
next
  assume "parseJSON s = Some JNull"
  then show "ConvertToMap (AString s) = None"
    by (simp add: ConvertToMap_def Unmarshal_def)
next
  assume "parseJSON s = Some (JObject ms)"
  then show "ConvertToMap (AString s) = Some (\<lambda>k. map_option stringOf (map_of (rev ms) k))"
    by (simp add: ConvertToMap_def Unmarshal_def decodeMembers_eq map_option_case)
next
  assume "parseJSON s = Some v \<and> v \<noteq> JNull \<and> (\<forall>ms. v \<noteq> JObject ms)"
  then show "ConvertToMap (AString s) = Some Map.empty"
    by (cases v) (simp_all add: ConvertToMap_def Unmarshal_def)
next
  assume "(\<forall>t. raw \<noteq> AMapAny t) \<and> (\<forall>s. raw \<noteq> AString s)"
  then show "ConvertToMap raw = Some Map.empty"
    by (cases raw) (simp_all add: ConvertToMap_def)
qed

theorem ConvertToMap_cases_witness:
  "ConvertToMap (AMapAny [(''traceparent'', AString ''00-0af7651916cd43dd8448eb211c80319c-b7ad6b7169203331-01''),
                          (''attempt'', AInt 3)])
     = Some [''traceparent'' \<mapsto> ''00-0af7651916cd43dd8448eb211c80319c-b7ad6b7169203331-01'',
             ''attempt'' \<mapsto> ''3'']
   \<and> ConvertToMap (AString ''not json'') = Some Map.empty
   \<and> ConvertToMap (AString ''null'') = None
   \<and> ConvertToMap (AString ''{\"traceparent\":\"00-0af7651916cd43dd8448eb211c80319c-b7ad6b7169203331-01\"}'')
     = Some [''traceparent'' \<mapsto> ''00-0af7651916cd43dd8448eb211c80319c-b7ad6b7169203331-01'']
   \<and> ConvertToMap (AString ''[1,2]'') = Some Map.empty
   \<and> ConvertToMap (AInt 7) = Some Map.empty"
proof -
  let ?tp = "''00-0af7651916cd43dd8448eb211c80319c-b7ad6b7169203331-01''"
  let ?t = "[(''traceparent'', AString ?tp), (''attempt'', AInt 3)]"
  let ?obj = "''{\"traceparent\":\"00-0af7651916cd43dd8448eb211c80319c-b7ad6b7169203331-01\"}''"
  have p1: "parseJSON ''not json'' = None"
    by (simp add: json_eval)
  have p2: "parseJSON ''null'' = Some JNull"
    by (simp add: json_eval)
  have p3: "parseJSON ?obj = Some (JObject [(''traceparent'', JString ?tp)])"
    by (simp add: json_eval)
  have p4: "parseJSON ''[1,2]'' = Some (JArray [JNumber ''1'', JNumber ''2''])"
    by (simp add: json_eval)
  have c1: "ConvertToMap (AMapAny ?t)
              = Some [''traceparent'' \<mapsto> ?tp, ''attempt'' \<mapsto> ''3'']"
    using ConvertToMap_cases [of ?t "[]" "[]" JNull ANil]
    by (auto simp: Itoa_def decimal.simps)
  have c2: "ConvertToMap (AString ''not json'') = Some Map.empty"
    using ConvertToMap_cases [of "[]" "''not json''" "[]" JNull ANil] p1 by simp
  have c3: "ConvertToMap (AString ''null'') = None"
    using ConvertToMap_cases [of "[]" "''null''" "[]" JNull ANil] p2 by simp
  have c4: "ConvertToMap (AString ?obj) = Some [''traceparent'' \<mapsto> ?tp]"
    using ConvertToMap_cases [of "[]" ?obj "[(''traceparent'', JString ?tp)]" JNull ANil] p3
    by auto
  have c5: "ConvertToMap (AString ''[1,2]'') = Some Map.empty"
    using ConvertToMap_cases [of "[]" "''[1,2]''" "[]" "JArray [JNumber ''1'', JNumber ''2'']" ANil] p4
    by simp
  have c6: "ConvertToMap (AInt 7) = Some Map.empty"
    using ConvertToMap_cases [of "[]" "[]" "[]" JNull "AInt 7"] by simp
  from c1 c2 c3 c4 c5 c6 show ?thesis by simp
qed

text \<open>
  C9 as it is stated fails on two inputs. The JSON text \<open>null\<close> is decoded by setting
  the map to nil, so the result is the nil map, not a non-nil one. And the object
  \<open>{"a":"x","b":1}\<close>, which is not valid for a string-to-string map, does not give the
  empty map: the decoder goes on after the member that does not fit.
\<close>

theorem ConvertToMap_nil_and_partial:
  "ConvertToMap (AString ''null'') = None
   \<and> ConvertToMap (AString ''{\"a\":\"x\",\"b\":1}'') = Some [''a'' \<mapsto> ''x'', ''b'' \<mapsto> []]"
  by (simp add: ConvertToMap_def Unmarshal_def json_eval)

end
